theory Spec2Isabelle
  imports Complex_Main "HOL-Library.AList"
begin

section \<open>Data model of the inventory store\<close>

text \<open>
  The store of \<^verbatim>\<open>InventoryManager\<close> (src/main.py) is the dictionary \<^verbatim>\<open>self.data\<close>:
  location name to a dictionary of item name to \<^verbatim>\<open>{'quantity': ..., 'category': ...}\<close>.
  Python dictionaries keep insertion order and have unique keys; they are modelled as
  association lists, read with \<open>map_of\<close>, written with \<open>AList.update\<close> (an existing
  key keeps its position, a new key goes to the end) and \<open>AList.delete\<close>.
  Quantities are Python integers (\<open>int\<close>), a category is a string or \<^verbatim>\<open>None\<close>.
\<close>

record item_record =
  quantity :: int
  category :: "string option"

type_synonym inventory = "(string \<times> item_record) list"

type_synonym store = "(string \<times> inventory) list"

text \<open>The Python exceptions that the modelled code can raise.\<close>

datatype py_error =
    OverflowError
  | SyntaxError
  | ZeroDivisionError
  | IndexError
  | KeyError string

text \<open>
  The manager object. \<open>saves\<close> is a ghost counter of the calls of \<^verbatim>\<open>save_data\<close>
  made so far; the outcome of the n-th write of the file is given from outside by a
  function \<open>disk :: nat \<Rightarrow> bool\<close> (\<^verbatim>\<open>save_data\<close> returns \<^verbatim>\<open>True\<close> when the write
  went through and \<^verbatim>\<open>False\<close> when it raised).
\<close>

record manager =
  data :: store
  saves :: nat

definition create_default_data :: store where
  "create_default_data =
     [(''refrigerator_1'', []), (''refrigerator_2'', []),
      (''refrigerator_3'', []), (''cupboard'', [])]"

definition fridges :: "string list" where
  "fridges = [''refrigerator_1'', ''refrigerator_2'', ''refrigerator_3'']"

definition save_data :: "(nat \<Rightarrow> bool) \<Rightarrow> manager \<Rightarrow> bool \<times> manager" where
  "save_data disk m = (disk (saves m), m\<lparr>saves := Suc (saves m)\<rparr>)"

subsection \<open>add, edit, remove, get\<close>

definition add_item ::
  "(nat \<Rightarrow> bool) \<Rightarrow> manager \<Rightarrow> string \<Rightarrow> string \<Rightarrow> int \<Rightarrow> string option \<Rightarrow> bool \<times> manager"
where
  "add_item disk m location name qty cat =
     (case map_of (data m) location of
        None \<Rightarrow> (False, m)
      | Some its \<Rightarrow>
          (case map_of its name of
             Some r \<Rightarrow> (False, m)
           | None \<Rightarrow>
               save_data disk
                 (m\<lparr>data := AList.update location
                     (AList.update name \<lparr>quantity = qty, category = cat\<rparr> its) (data m)\<rparr>)))"

definition edit_item ::
  "(nat \<Rightarrow> bool) \<Rightarrow> manager \<Rightarrow> string \<Rightarrow> string \<Rightarrow> int option \<Rightarrow> string option \<Rightarrow> bool \<times> manager"
where
  "edit_item disk m location name new_quantity new_category =
     (case map_of (data m) location of
        None \<Rightarrow> (False, m)
      | Some its \<Rightarrow>
          (case map_of its name of
             None \<Rightarrow> (False, m)
           | Some r \<Rightarrow>
               (let r1 = (case new_quantity of None \<Rightarrow> r | Some q \<Rightarrow> r\<lparr>quantity := q\<rparr>);
                    r2 = (case new_category of None \<Rightarrow> r1 | Some c \<Rightarrow> r1\<lparr>category := Some c\<rparr>)
                in save_data disk
                     (m\<lparr>data := AList.update location (AList.update name r2 its) (data m)\<rparr>))))"

definition remove_item ::
  "(nat \<Rightarrow> bool) \<Rightarrow> manager \<Rightarrow> string \<Rightarrow> string \<Rightarrow> bool \<times> manager"
where
  "remove_item disk m location name =
     (case map_of (data m) location of
        None \<Rightarrow> (False, m)
      | Some its \<Rightarrow>
          (case map_of its name of
             None \<Rightarrow> (False, m)
           | Some r \<Rightarrow>
               save_data disk
                 (m\<lparr>data := AList.update location (AList.delete name its) (data m)\<rparr>)))"

text \<open>
  \<^verbatim>\<open>get_inventory(location=None)\<close> answers with one location's dictionary or with the
  whole store. The test \<^verbatim>\<open>if location:\<close> is Python truthiness: \<^verbatim>\<open>None\<close> and the empty
  string both take the second branch.
\<close>

datatype inventory_view = Items inventory | Whole store

definition get_inventory :: "manager \<Rightarrow> string option \<Rightarrow> inventory_view \<times> manager" where
  "get_inventory m location =
     (case location of
        None \<Rightarrow> (Whole (data m), m)
      | Some loc \<Rightarrow>
          if loc \<noteq> []
          then (case map_of (data m) loc of
                  None \<Rightarrow> (Items [], m)
                | Some its \<Rightarrow> (Items its, m))
          else (Whole (data m), m))"

subsection \<open>Transfer from the cupboard\<close>

text \<open>
  \<^verbatim>\<open>move_from_cupboard\<close> returns a pair \<^verbatim>\<open>(False, message)\<close> or \<^verbatim>\<open>(True, target)\<close>.
  The three messages are the constructors \<open>NotFound\<close> (item not found in the cupboard),
  \<open>Insufficient\<close> (not enough of the item in the cupboard) and \<open>SaveError\<close> (error saving
  the data). \<open>Raised (KeyError loc)\<close> is the exception of \<^verbatim>\<open>self.data[loc]\<close> when the
  store has no such location.
\<close>

datatype move_result =
    NotFound
  | Insufficient
  | SaveError
  | Moved string
  | Raised py_error

fun find_target :: "store \<Rightarrow> string \<Rightarrow> string list \<Rightarrow> string + string option" where
  "find_target d item_name [] = Inr None"
| "find_target d item_name (loc # locs) =
     (case map_of d loc of
        None \<Rightarrow> Inl loc
      | Some its \<Rightarrow>
          if map_of its item_name \<noteq> None then Inr (Some loc)
          else find_target d item_name locs)"

definition move_from_cupboard ::
  "(nat \<Rightarrow> bool) \<Rightarrow> manager \<Rightarrow> string \<Rightarrow> int \<Rightarrow> move_result \<times> manager"
where
  "move_from_cupboard disk m item_name qty =
     (case map_of (data m) ''cupboard'' of
        None \<Rightarrow> (NotFound, m)
      | Some cup \<Rightarrow>
          (case map_of cup item_name of
             None \<Rightarrow> (NotFound, m)
           | Some r \<Rightarrow>
               if quantity r < qty then (Insufficient, m)
               else
                 (case find_target (data m) item_name fridges of
                    Inl loc \<Rightarrow> (Raised (KeyError loc), m)
                  | Inr found \<Rightarrow>
                      (let target_location =
                             (case found of None \<Rightarrow> ''refrigerator_1'' | Some loc \<Rightarrow> loc);
                           cup1 = AList.update item_name (r\<lparr>quantity := quantity r - qty\<rparr>) cup;
                           cup2 = (if quantity r - qty = 0 then AList.delete item_name cup1
                                   else cup1);
                           d1 = AList.update ''cupboard'' cup2 (data m)
                       in (case map_of d1 target_location of
                             None \<Rightarrow> (Raised (KeyError target_location), m\<lparr>data := d1\<rparr>)
                           | Some tgt \<Rightarrow>
                               (let tgt1 =
                                      (case map_of tgt item_name of
                                         Some t \<Rightarrow>
                                           AList.update item_name
                                             (t\<lparr>quantity := quantity t + qty\<rparr>) tgt
                                       | None \<Rightarrow>
                                           AList.update item_name
                                             \<lparr>quantity = qty,
                                              category =
                                                (case map_of cup2 item_name of
                                                   None \<Rightarrow> None
                                                 | Some c \<Rightarrow> category c)\<rparr> tgt);
                                    d2 = AList.update target_location tgt1 d1;
                                    (ok, m') = save_data disk (m\<lparr>data := d2\<rparr>)
                                in if ok then (Moved target_location, m')
                                   else (SaveError, m')))))))"

subsection \<open>Reading the store\<close>

text \<open>
  \<open>lookup d loc item\<close> is \<^verbatim>\<open>d.get(loc, {}).get(item)\<close>, and \<open>qty_of\<close> the
  quantity found there, 0 when there is no record.
\<close>

definition lookup :: "store \<Rightarrow> string \<Rightarrow> string \<Rightarrow> item_record option" where
  "lookup d loc item =
     (case map_of d loc of None \<Rightarrow> None | Some its \<Rightarrow> map_of its item)"

definition qty_of :: "store \<Rightarrow> string \<Rightarrow> string \<Rightarrow> int" where
  "qty_of d loc item = (case lookup d loc item of None \<Rightarrow> 0 | Some r \<Rightarrow> quantity r)"

subsection \<open>Receiving into the cupboard\<close>

text \<open>
  The loop of \<^verbatim>\<open>add_to_cupboard\<close> over \<^verbatim>\<open>goods_list\<close>, on the cupboard dictionary.
\<close>

fun receive_all :: "inventory \<Rightarrow> (string \<times> int) list \<Rightarrow> inventory" where
  "receive_all cup [] = cup"
| "receive_all cup ((item_name, qty) # rest) =
     receive_all
       (case map_of cup item_name of
          Some r \<Rightarrow> AList.update item_name (r\<lparr>quantity := quantity r + qty\<rparr>) cup
        | None \<Rightarrow> AList.update item_name \<lparr>quantity = qty, category = None\<rparr> cup)
       rest"

definition add_to_cupboard ::
  "(nat \<Rightarrow> bool) \<Rightarrow> manager \<Rightarrow> (string \<times> int) list \<Rightarrow> bool \<times> manager"
where
  "add_to_cupboard disk m goods_list =
     (let d0 = (case map_of (data m) ''cupboard'' of
                  None \<Rightarrow> AList.update ''cupboard'' [] (data m)
                | Some cup \<Rightarrow> data m);
          cup0 = (case map_of d0 ''cupboard'' of None \<Rightarrow> [] | Some cup \<Rightarrow> cup)
      in save_data disk
           (m\<lparr>data := AList.update ''cupboard'' (receive_all cup0 goods_list) d0\<rparr>))"

text \<open>The quantity a batch brings in for one item name: the sum over its lines.\<close>

definition received :: "(string \<times> int) list \<Rightarrow> string \<Rightarrow> int" where
  "received goods_list name = sum_list (map snd (filter (\<lambda>p. fst p = name) goods_list))"

subsection \<open>Reorder advice\<close>

text \<open>
  \<^verbatim>\<open>math.ceil(total_in_fridges * 0.5)\<close> multiplies a Python integer by a float. The
  integer is first converted to a float: exactly up to 53 significant bits, rounded to
  the nearest float (ties to even) beyond, and with \<^verbatim>\<open>OverflowError\<close> when the rounded
  value reaches \<open>2 ^ 1024\<close>. The value of the float is an integer again, halving it is
  exact, and \<^verbatim>\<open>math.ceil\<close> returns an exact integer, so the whole expression is
  modelled in integer arithmetic.
\<close>

fun bit_length :: "nat \<Rightarrow> nat" where
  "bit_length n = (if n = 0 then 0 else Suc (bit_length (n div 2)))"

declare bit_length.simps [simp del]

definition float_of_nat :: "nat \<Rightarrow> nat" where
  "float_of_nat a =
     (if bit_length a \<le> 53 then a
      else
        (let e = bit_length a - 53;
             q = a div 2 ^ e;
             r = a mod 2 ^ e;
             half = 2 ^ (e - 1);
             q' = (if half < r \<or> (r = half \<and> odd q) then q + 1 else q)
         in q' * 2 ^ e))"

definition float_of_int :: "int \<Rightarrow> py_error + int" where
  "float_of_int n =
     (let v = float_of_nat (nat \<bar>n\<bar>)
      in if 2 ^ 1024 \<le> v then Inl OverflowError
         else Inr (if n < 0 then - int v else int v))"

definition ceil_half :: "int \<Rightarrow> py_error + int" where
  "ceil_half n =
     (case float_of_int n of
        Inl e \<Rightarrow> Inl e
      | Inr v \<Rightarrow> Inr (- ((- v) div 2)))"

record reorder =
  current :: int
  recommended :: int

text \<open>
  \<^verbatim>\<open>fridge_items\<close> is a Python set; it is listed here without duplicates in the order
  of first insertion. The order in which Python iterates over the set is not fixed,
  and the result does not depend on it: every item writes its own key of \<^verbatim>\<open>to_order\<close>.
\<close>

definition fridge_items :: "store \<Rightarrow> string list" where
  "fridge_items d =
     remdups (concat (map (\<lambda>loc. case map_of d loc of None \<Rightarrow> [] | Some its \<Rightarrow> map fst its)
                          fridges))"

fun total_in_fridges :: "store \<Rightarrow> string \<Rightarrow> string list \<Rightarrow> int \<Rightarrow> int" where
  "total_in_fridges d item [] tot = tot"
| "total_in_fridges d item (loc # locs) tot =
     total_in_fridges d item locs (tot + qty_of d loc item)"

fun check_items ::
  "store \<Rightarrow> int \<Rightarrow> string list \<Rightarrow> (string \<times> reorder) list
     \<Rightarrow> py_error + (string \<times> reorder) list"
where
  "check_items d threshold [] to_order = Inr to_order"
| "check_items d threshold (item # rest) to_order =
     (let cupboard_qty = qty_of d ''cupboard'' item
      in if cupboard_qty < threshold
         then (case ceil_half (total_in_fridges d item fridges 0) of
                 Inl e \<Rightarrow> Inl e
               | Inr c \<Rightarrow>
                   check_items d threshold rest
                     (AList.update item
                        \<lparr>current = cupboard_qty, recommended = max 10 c\<rparr> to_order))
         else check_items d threshold rest to_order)"

definition check_stock_levels ::
  "manager \<Rightarrow> int \<Rightarrow> py_error + (string \<times> reorder) list"
where
  "check_stock_levels m threshold = check_items (data m) threshold (fridge_items (data m)) []"

subsection \<open>Applying a stocktake\<close>

text \<open>
  The results of a stocktake session are a dictionary location to (item to counted
  quantity). \<^verbatim>\<open>confirm_counting\<close> compares the lower-cased message with the Cyrillic
  word for yes (code points 1076, 1072); the message is a list of code points, and the
  only strings whose lower case is that word are its four case variants (capitals 1044
  and 1040). The replies sent to the chat are not modelled.
\<close>

type_synonym counting_results = "(string \<times> (string \<times> int) list) list"

definition lower_is_yes :: "nat list \<Rightarrow> bool" where
  "lower_is_yes txt =
     (case txt of
        [a, b] \<Rightarrow> (a = 1044 \<or> a = 1076) \<and> (b = 1040 \<or> b = 1072)
      | _ \<Rightarrow> False)"

fun apply_items ::
  "(nat \<Rightarrow> bool) \<Rightarrow> manager \<Rightarrow> string \<Rightarrow> (string \<times> int) list \<Rightarrow> manager"
where
  "apply_items disk m location [] = m"
| "apply_items disk m location ((item, new_quantity) # rest) =
     apply_items disk (snd (edit_item disk m location item (Some new_quantity) None))
       location rest"

fun apply_results :: "(nat \<Rightarrow> bool) \<Rightarrow> manager \<Rightarrow> counting_results \<Rightarrow> manager" where
  "apply_results disk m [] = m"
| "apply_results disk m ((location, its) # rest) =
     apply_results disk (apply_items disk m location its) rest"

definition confirm_counting ::
  "(nat \<Rightarrow> bool) \<Rightarrow> manager \<Rightarrow> counting_results \<Rightarrow> nat list \<Rightarrow> manager"
where
  "confirm_counting disk m results txt =
     (if lower_is_yes txt then apply_results disk m results else m)"

text \<open>What a stocktake recorded for an item of a location.\<close>

definition recorded :: "counting_results \<Rightarrow> string \<Rightarrow> string \<Rightarrow> int option" where
  "recorded results loc item =
     (case map_of results loc of None \<Rightarrow> None | Some its \<Rightarrow> map_of its item)"

text \<open>The four fixed location keys, in the order a stocktake visits them.\<close>

definition locations :: "string list" where
  "locations = [''refrigerator_1'', ''refrigerator_2'', ''refrigerator_3'', ''cupboard'']"

text \<open>No record of the store has a quantity of zero or less.\<close>

definition positive_items :: "inventory \<Rightarrow> bool" where
  "positive_items its = list_all (\<lambda>(item, r). 0 < quantity r) its"

definition all_positive :: "store \<Rightarrow> bool" where
  "all_positive d = list_all (\<lambda>(loc, its). positive_items its) d"

section \<open>The quantity expression evaluator\<close>



subsection \<open>Syntax trees\<close>






subsection \<open>Normalising the text\<close>



subsection \<open>Lines and indentation\<close>




subsection \<open>Tokens\<close>




subsection \<open>Grammar\<close>












subsection \<open>Evaluation\<close>






section \<open>The stocktake session\<close>

text \<open>
  The session is the dictionary \<^verbatim>\<open>context.user_data['counting']\<close>. Its entry
  \<^verbatim>\<open>'locations'\<close> is set by \<^verbatim>\<open>start_counting\<close> to the four fixed keys and never changed;
  it is the constant \<open>locations\<close>. The handlers below run in the state
  \<^verbatim>\<open>COUNTING_ITEM\<close>, where the other entries are set. A handler returns the next state
  of the conversation, or raises; the messages it sends are not modelled. The session
  is changed in place, so the changes made before an exception stay.
\<close>

record counting =
  current_location_index :: nat
  results :: counting_results
  current_items :: "string list"
  current_item_index :: nat
  current_location :: string










section \<open>Transfer from the cupboard to a refrigerator\<close>

subsection \<open>The search for the target location\<close>

lemma find_target_Some:
  "find_target d item locs = Inr (Some loc) \<Longrightarrow>
     loc \<in> set locs \<and> (\<exists>its r. map_of d loc = Some its \<and> map_of its item = Some r)"
  by (induction locs) (auto split: option.splits if_splits)

lemma find_target_None:
  "find_target d item locs = Inr None \<Longrightarrow> loc \<in> set locs \<Longrightarrow>
     \<exists>its. map_of d loc = Some its \<and> map_of its item = None"
  by (induction locs) (auto split: option.splits if_splits)

lemma find_target_total:
  "\<forall>loc\<in>set locs. map_of d loc \<noteq> None \<Longrightarrow> \<exists>found. find_target d item locs = Inr found"
  by (induction locs) (auto split: option.splits if_splits)

lemma cupboard_notin_fridges: "''cupboard'' \<notin> set fridges"
  by (simp add: fridges_def)

lemma rf1_in_fridges: "''refrigerator_1'' \<in> set fridges"
  by (simp add: fridges_def)

lemma move_from_cupboard_step:
  assumes cup: "map_of (data m) ''cupboard'' = Some cup"
    and r: "map_of cup item = Some r"
    and le: "qty \<le> quantity r"
    and found: "find_target (data m) item fridges = Inr found"
  shows "\<exists>tgt tg. tgt = (case found of None \<Rightarrow> ''refrigerator_1'' | Some loc \<Rightarrow> loc)
     \<and> tgt \<in> set fridges \<and> map_of (data m) tgt = Some tg
     \<and> move_from_cupboard disk m item qty =
        (if disk (saves m) then Moved tgt else SaveError,
         m\<lparr>data := AList.update tgt
            (case map_of tg item of
               Some t \<Rightarrow> AList.update item (t\<lparr>quantity := quantity t + qty\<rparr>) tg
             | None \<Rightarrow> AList.update item \<lparr>quantity = qty,
                  category = (if quantity r - qty = 0 then None else category r)\<rparr> tg)
            (AList.update ''cupboard''
               (if quantity r - qty = 0 then AList.delete item cup
                else AList.update item (r\<lparr>quantity := quantity r - qty\<rparr>) cup) (data m)),
           saves := Suc (saves m)\<rparr>)"
proof -
  define tl where "tl = (case found of None \<Rightarrow> ''refrigerator_1'' | Some loc \<Rightarrow> loc)"
  have tl_in: "tl \<in> set fridges"
    using find_target_Some[of "data m" item fridges] found rf1_in_fridges
    by (cases found) (auto simp: tl_def)
  have "\<exists>tg. map_of (data m) tl = Some tg"
  proof (cases found)
    case None
    then show ?thesis using find_target_None[OF _ rf1_in_fridges, of "data m" item] found
      by (auto simp: tl_def)
  next
    case (Some loc)
    then show ?thesis using find_target_Some[of "data m" item fridges loc] found
      by (auto simp: tl_def)
  qed
  then obtain tg where tg: "map_of (data m) tl = Some tg" by blast
  have ne: "tl \<noteq> ''cupboard''" using tl_in cupboard_notin_fridges by auto
  have "move_from_cupboard disk m item qty =
        (if disk (saves m) then Moved tl else SaveError,
         m\<lparr>data := AList.update tl
            (case map_of tg item of
               Some t \<Rightarrow> AList.update item (t\<lparr>quantity := quantity t + qty\<rparr>) tg
             | None \<Rightarrow> AList.update item \<lparr>quantity = qty,
                  category = (if quantity r - qty = 0 then None else category r)\<rparr> tg)
            (AList.update ''cupboard''
               (if quantity r - qty = 0 then AList.delete item cup
                else AList.update item (r\<lparr>quantity := quantity r - qty\<rparr>) cup) (data m)),
           saves := Suc (saves m)\<rparr>)"
    using cup r le found tg ne
    by (auto simp: move_from_cupboard_def Let_def save_data_def tl_def update_conv' delete_conv'
        AList.delete_update_same split: option.splits)
  with tl_in tg show ?thesis unfolding tl_def by blast
qed

lemma move_from_cupboard_Moved:
  assumes "move_from_cupboard disk m item qty = (Moved tgt, m')"
  shows "\<exists>cup r found. map_of (data m) ''cupboard'' = Some cup \<and> map_of cup item = Some r
     \<and> qty \<le> quantity r \<and> find_target (data m) item fridges = Inr found"
proof -
  from assms obtain cup where cup: "map_of (data m) ''cupboard'' = Some cup"
    by (auto simp: move_from_cupboard_def split: option.splits)
  from assms cup obtain r where r: "map_of cup item = Some r"
    by (auto simp: move_from_cupboard_def split: option.splits)
  from assms cup r have le: "qty \<le> quantity r"
    by (auto simp: move_from_cupboard_def split: if_splits)
  from assms cup r le obtain found where "find_target (data m) item fridges = Inr found"
    by (auto simp: move_from_cupboard_def split: sum.splits)
  with cup r le show ?thesis by blast
qed

lemma lookup_move_cupboard:
  assumes "tgt \<noteq> ''cupboard''"
  shows "lookup (AList.update tgt X (AList.update ''cupboard'' C d)) ''cupboard'' item = map_of C item"
  using assms by (simp add: lookup_def update_conv')

lemma lookup_move_target:
  "lookup (AList.update tgt X d) tgt item = map_of X item"
  by (simp add: lookup_def update_conv')

subsection \<open>Validation failures\<close>

text \<open>
  C7. A transfer fails with the reason "not found" whenever the item is absent from the
  cupboard, and with the reason "insufficient quantity" whenever the cupboard quantity
  is strictly less than the requested quantity; in both cases the manager (store and
  persistence counter) is returned unchanged: nothing is decremented, created, changed
  or removed.
\<close>

theorem move_from_cupboard_rejects:
  "(lookup (data m) ''cupboard'' item_a = None
      \<longrightarrow> move_from_cupboard disk m item_a qty_a = (NotFound, m))
   \<and> (\<forall>r. lookup (data m) ''cupboard'' item_b = Some r \<and> quantity r < qty_b
      \<longrightarrow> move_from_cupboard disk m item_b qty_b = (Insufficient, m))"
  by (auto simp: move_from_cupboard_def lookup_def split: option.splits)

theorem move_from_cupboard_rejects_witness:
  "lookup [(''refrigerator_1'', []), (''cupboard'', [(''Milk'', \<lparr>quantity = 3, category = None\<rparr>)])]
      ''cupboard'' ''Tea'' = None
   \<and> lookup [(''refrigerator_1'', []), (''cupboard'', [(''Milk'', \<lparr>quantity = 3, category = None\<rparr>)])]
      ''cupboard'' ''Milk'' = Some \<lparr>quantity = 3, category = None\<rparr>
   \<and> move_from_cupboard (\<lambda>n. True)
        \<lparr>data = [(''refrigerator_1'', []),
                 (''cupboard'', [(''Milk'', \<lparr>quantity = 3, category = None\<rparr>)])], saves = 0\<rparr>
        ''Tea'' 1
      = (NotFound,
         \<lparr>data = [(''refrigerator_1'', []),
                 (''cupboard'', [(''Milk'', \<lparr>quantity = 3, category = None\<rparr>)])], saves = 0\<rparr>)
   \<and> move_from_cupboard (\<lambda>n. True)
        \<lparr>data = [(''refrigerator_1'', []),
                 (''cupboard'', [(''Milk'', \<lparr>quantity = 3, category = None\<rparr>)])], saves = 0\<rparr>
        ''Milk'' 5
      = (Insufficient,
         \<lparr>data = [(''refrigerator_1'', []),
                 (''cupboard'', [(''Milk'', \<lparr>quantity = 3, category = None\<rparr>)])], saves = 0\<rparr>)"
  using move_from_cupboard_rejects
    [of "\<lparr>data = [(''refrigerator_1'', []),
                 (''cupboard'', [(''Milk'', \<lparr>quantity = 3, category = None\<rparr>)])], saves = 0\<rparr>"
        "''Tea''" "\<lambda>n. True" 1 "''Milk''" 5]
  by (simp add: lookup_def)

subsection \<open>Conservation\<close>

text \<open>
  C1. For an item present in the cupboard with quantity at least \<open>qty\<close>, a successful
  transfer conserves the item's total over the cupboard and the target location,
  decreases the cupboard quantity by exactly \<open>qty\<close>, and removes the cupboard record
  if and only if its quantity reaches exactly 0.
\<close>

theorem transfer_conserves:
  assumes "lookup (data m) ''cupboard'' item = Some r"
    and "qty \<le> quantity r"
    and "move_from_cupboard disk m item qty = (Moved tgt, m')"
  shows "qty_of (data m') ''cupboard'' item + qty_of (data m') tgt item
           = qty_of (data m) ''cupboard'' item + qty_of (data m) tgt item
       \<and> qty_of (data m') ''cupboard'' item = qty_of (data m) ''cupboard'' item - qty
       \<and> (lookup (data m') ''cupboard'' item = None
            \<longleftrightarrow> qty_of (data m) ''cupboard'' item - qty = 0)"
proof -
  from move_from_cupboard_Moved[OF assms(3)] obtain cup r' found where
    cup: "map_of (data m) ''cupboard'' = Some cup" and r': "map_of cup item = Some r'"
    and le: "qty \<le> quantity r'" and found: "find_target (data m) item fridges = Inr found"
    by blast
  from assms(1) cup r' have rr: "r' = r" by (simp add: lookup_def)
  from move_from_cupboard_step[OF cup r' le found, of disk] assms(3) obtain tg where
    tin: "tgt \<in> set fridges" and tg: "map_of (data m) tgt = Some tg"
    and m': "m' = m\<lparr>data := AList.update tgt
            (case map_of tg item of
               Some t \<Rightarrow> AList.update item (t\<lparr>quantity := quantity t + qty\<rparr>) tg
             | None \<Rightarrow> AList.update item \<lparr>quantity = qty,
                  category = (if quantity r' - qty = 0 then None else category r')\<rparr> tg)
            (AList.update ''cupboard''
               (if quantity r' - qty = 0 then AList.delete item cup
                else AList.update item (r'\<lparr>quantity := quantity r' - qty\<rparr>) cup) (data m)),
           saves := Suc (saves m)\<rparr>"
    by (auto split: if_splits)
  have ne: "tgt \<noteq> ''cupboard''" using tin cupboard_notin_fridges by auto
  have c0: "qty_of (data m) ''cupboard'' item = quantity r"
    using assms(1) by (simp add: qty_of_def)
  have t0: "qty_of (data m) tgt item = (case map_of tg item of None \<Rightarrow> 0 | Some t \<Rightarrow> quantity t)"
    using tg by (simp add: qty_of_def lookup_def)
  have c1: "lookup (data m') ''cupboard'' item =
      (if quantity r - qty = 0 then None else Some (r\<lparr>quantity := quantity r - qty\<rparr>))"
    unfolding m' rr using ne
    by (simp add: lookup_move_cupboard update_conv' delete_conv')
  have t1: "qty_of (data m') tgt item = (case map_of tg item of None \<Rightarrow> 0 | Some t \<Rightarrow> quantity t) + qty"
    unfolding m' qty_of_def
    by (simp add: lookup_move_target update_conv' split: option.splits)
  have c1q: "qty_of (data m') ''cupboard'' item = quantity r - qty"
    using c1 by (simp add: qty_of_def)
  show ?thesis using c0 t0 c1 t1 c1q by simp
qed


theorem transfer_conserves_witness:
  "lookup [(''refrigerator_1'', []), (''refrigerator_2'', [(''Milk'', \<lparr>quantity = 2, category = None\<rparr>)]),
           (''refrigerator_3'', []),
           (''cupboard'', [(''Milk'', \<lparr>quantity = 5, category = Some ''Dairy''\<rparr>)])]
      ''cupboard'' ''Milk'' = Some \<lparr>quantity = 5, category = Some ''Dairy''\<rparr>
   \<and> (3::int) \<le> quantity \<lparr>quantity = 5, category = Some ''Dairy''\<rparr>
   \<and> move_from_cupboard (\<lambda>n. True)
        \<lparr>data = [(''refrigerator_1'', []),
                 (''refrigerator_2'', [(''Milk'', \<lparr>quantity = 2, category = None\<rparr>)]),
                 (''refrigerator_3'', []),
                 (''cupboard'', [(''Milk'', \<lparr>quantity = 5, category = Some ''Dairy''\<rparr>)])],
         saves = 0\<rparr> ''Milk'' 3
      = (Moved ''refrigerator_2'',
         \<lparr>data = [(''refrigerator_1'', []),
                 (''refrigerator_2'', [(''Milk'', \<lparr>quantity = 5, category = None\<rparr>)]),
                 (''refrigerator_3'', []),
                 (''cupboard'', [(''Milk'', \<lparr>quantity = 2, category = Some ''Dairy''\<rparr>)])],
         saves = 1\<rparr>)
   \<and> qty_of [(''refrigerator_1'', []),
              (''refrigerator_2'', [(''Milk'', \<lparr>quantity = 5, category = None\<rparr>)]),
              (''refrigerator_3'', []),
              (''cupboard'', [(''Milk'', \<lparr>quantity = 2, category = Some ''Dairy''\<rparr>)])]
         ''cupboard'' ''Milk'' = 2
   \<and> qty_of [(''refrigerator_1'', []),
              (''refrigerator_2'', [(''Milk'', \<lparr>quantity = 5, category = None\<rparr>)]),
              (''refrigerator_3'', []),
              (''cupboard'', [(''Milk'', \<lparr>quantity = 2, category = Some ''Dairy''\<rparr>)])]
         ''refrigerator_2'' ''Milk'' = 5"
  using transfer_conserves
    [of "\<lparr>data = [(''refrigerator_1'', []),
                 (''refrigerator_2'', [(''Milk'', \<lparr>quantity = 2, category = None\<rparr>)]),
                 (''refrigerator_3'', []),
                 (''cupboard'', [(''Milk'', \<lparr>quantity = 5, category = Some ''Dairy''\<rparr>)])],
         saves = 0\<rparr>" "''Milk''" "\<lparr>quantity = 5, category = Some ''Dairy''\<rparr>" 3
        "\<lambda>n. True" "''refrigerator_2''"
        "\<lparr>data = [(''refrigerator_1'', []),
                 (''refrigerator_2'', [(''Milk'', \<lparr>quantity = 5, category = None\<rparr>)]),
                 (''refrigerator_3'', []),
                 (''cupboard'', [(''Milk'', \<lparr>quantity = 2, category = Some ''Dairy''\<rparr>)])],
         saves = 1\<rparr>"]
  by (simp add: lookup_def qty_of_def move_from_cupboard_def fridges_def save_data_def Let_def)

subsection \<open>No lower bound on the requested quantity\<close>

text \<open>
  C10. \<^verbatim>\<open>move_from_cupboard\<close> checks no lower bound: for every integer \<open>qty\<close> at most
  the cupboard quantity, zero and negative ones included, the call passes both
  validations (its outcome is the target location, or the persistence error when the
  write fails) and applies the signed adjustment as it is: the cupboard quantity
  becomes the old one minus \<open>qty\<close>, and the target has a record for the item
  afterwards whose quantity is the old target quantity (0 when there was no record)
  plus \<open>qty\<close>.
\<close>

theorem transfer_no_lower_bound:
  assumes "lookup (data m) ''cupboard'' item = Some r"
    and "qty \<le> quantity r"
    and "\<forall>loc\<in>set fridges. map_of (data m) loc \<noteq> None"
  shows "\<exists>tgt m'. tgt \<in> set fridges
     \<and> move_from_cupboard disk m item qty = (if disk (saves m) then Moved tgt else SaveError, m')
     \<and> qty_of (data m') ''cupboard'' item = quantity r - qty
     \<and> lookup (data m') tgt item \<noteq> None
     \<and> qty_of (data m') tgt item = qty_of (data m) tgt item + qty"
proof -
  from assms(1) obtain cup where cup: "map_of (data m) ''cupboard'' = Some cup"
    and r: "map_of cup item = Some r"
    by (auto simp: lookup_def split: option.splits)
  from find_target_total[OF assms(3), of item] obtain found where
    found: "find_target (data m) item fridges = Inr found" by blast
  from move_from_cupboard_step[OF cup r assms(2) found, of disk] obtain tgt tg m' where
    tin: "tgt \<in> set fridges" and tg: "map_of (data m) tgt = Some tg"
    and res: "move_from_cupboard disk m item qty = (if disk (saves m) then Moved tgt else SaveError, m')"
    and m': "m' = m\<lparr>data := AList.update tgt
            (case map_of tg item of
               Some t \<Rightarrow> AList.update item (t\<lparr>quantity := quantity t + qty\<rparr>) tg
             | None \<Rightarrow> AList.update item \<lparr>quantity = qty,
                  category = (if quantity r - qty = 0 then None else category r)\<rparr> tg)
            (AList.update ''cupboard''
               (if quantity r - qty = 0 then AList.delete item cup
                else AList.update item (r\<lparr>quantity := quantity r - qty\<rparr>) cup) (data m)),
           saves := Suc (saves m)\<rparr>"
    by blast
  have ne: "tgt \<noteq> ''cupboard''" using tin cupboard_notin_fridges by auto
  have c1: "qty_of (data m') ''cupboard'' item = quantity r - qty"
    unfolding m' qty_of_def using ne
    by (simp add: lookup_move_cupboard update_conv' delete_conv')
  have t1: "lookup (data m') tgt item \<noteq> None"
    unfolding m' by (simp add: lookup_move_target update_conv' split: option.splits)
  have t2: "qty_of (data m') tgt item = qty_of (data m) tgt item + qty"
    unfolding m' qty_of_def using tg
    by (simp add: lookup_move_target update_conv' lookup_def split: option.splits)
  from tin res c1 t1 t2 show ?thesis by blast
qed

theorem transfer_no_lower_bound_witness:
  "lookup [(''refrigerator_1'', []), (''refrigerator_2'', []), (''refrigerator_3'', []),
           (''cupboard'', [(''Milk'', \<lparr>quantity = 3, category = None\<rparr>)])]
      ''cupboard'' ''Milk'' = Some \<lparr>quantity = 3, category = None\<rparr>
   \<and> (- 2::int) \<le> quantity \<lparr>quantity = 3, category = None\<rparr>
   \<and> map (map_of [(''refrigerator_1'', []), (''refrigerator_2'', []), (''refrigerator_3'', []),
                    (''cupboard'', [(''Milk'', \<lparr>quantity = 3, category = None\<rparr>)])]) fridges
       = [Some [], Some [], Some []]
   \<and> (\<exists>tgt m'. tgt \<in> set fridges
        \<and> move_from_cupboard (\<lambda>n. True)
             \<lparr>data = [(''refrigerator_1'', []), (''refrigerator_2'', []), (''refrigerator_3'', []),
                      (''cupboard'', [(''Milk'', \<lparr>quantity = 3, category = None\<rparr>)])],
              saves = 0\<rparr> ''Milk'' (- 2) = (Moved tgt, m')
        \<and> qty_of (data m') ''cupboard'' ''Milk'' = 5
        \<and> lookup (data m') tgt ''Milk'' \<noteq> None
        \<and> qty_of (data m') tgt ''Milk''
            = qty_of [(''refrigerator_1'', []), (''refrigerator_2'', []), (''refrigerator_3'', []),
                      (''cupboard'', [(''Milk'', \<lparr>quantity = 3, category = None\<rparr>)])]
                tgt ''Milk'' + (- 2))"
proof -
  let ?d = "[(''refrigerator_1'', []), (''refrigerator_2'', []), (''refrigerator_3'', []),
             (''cupboard'', [(''Milk'', \<lparr>quantity = 3, category = None\<rparr>)])]"
  have h1: "lookup ?d ''cupboard'' ''Milk'' = Some \<lparr>quantity = 3, category = None\<rparr>"
    by (simp add: lookup_def)
  have h2: "(- 2::int) \<le> quantity \<lparr>quantity = 3, category = None\<rparr>"
    by simp
  have h3: "\<forall>loc\<in>set fridges. map_of ?d loc \<noteq> None"
    by (simp add: fridges_def)
  from transfer_no_lower_bound [of "\<lparr>data = ?d, saves = 0\<rparr>" "''Milk''"
      "\<lparr>quantity = 3, category = None\<rparr>" "- 2" "\<lambda>n. True"] h1 h2 h3
  have "\<exists>tgt m'. tgt \<in> set fridges
        \<and> move_from_cupboard (\<lambda>n. True) \<lparr>data = ?d, saves = 0\<rparr> ''Milk'' (- 2) = (Moved tgt, m')
        \<and> qty_of (data m') ''cupboard'' ''Milk'' = 5
        \<and> lookup (data m') tgt ''Milk'' \<noteq> None
        \<and> qty_of (data m') tgt ''Milk'' = qty_of ?d tgt ''Milk'' + (- 2)"
    by simp
  moreover have "map (map_of ?d) fridges = [Some [], Some [], Some []]"
    by (simp add: fridges_def)
  ultimately show ?thesis using h1 h2 by blast
qed

subsection \<open>Category of the record created at the target\<close>

text \<open>
  C3. The claim is that a record created at the target carries the category the cupboard
  record had before the decrement, also when the transfer empties the cupboard record.
  The code reads the category after it has deleted the emptied record: moving all 5
  units of an item of category Dairy creates the target record with no category.
\<close>

theorem transfer_depletion_drops_category:
  "move_from_cupboard (\<lambda>n. True)
     \<lparr>data = [(''refrigerator_1'', []), (''refrigerator_2'', []), (''refrigerator_3'', []),
              (''cupboard'', [(''Milk'', \<lparr>quantity = 5, category = Some ''Dairy''\<rparr>)])],
      saves = 0\<rparr> ''Milk'' 5
   = (Moved ''refrigerator_1'',
      \<lparr>data = [(''refrigerator_1'', [(''Milk'', \<lparr>quantity = 5, category = None\<rparr>)]),
               (''refrigerator_2'', []), (''refrigerator_3'', []), (''cupboard'', [])],
       saves = 1\<rparr>)"
  by (simp add: move_from_cupboard_def fridges_def save_data_def Let_def)

section \<open>Receiving goods\<close>

lemma received_Nil: "received [] name = 0"
  by (simp add: received_def)

lemma received_Cons:
  "received ((n, q) # rest) name = (if n = name then q + received rest name else received rest name)"
  by (simp add: received_def)

lemma received_absent: "name \<notin> fst ` set goods \<Longrightarrow> received goods name = 0"
  by (induction goods) (auto simp: received_Nil received_Cons)

lemma map_of_receive_all:
  "map_of (receive_all cup goods) name =
     (if name \<in> fst ` set goods
      then Some (case map_of cup name of
                   Some r \<Rightarrow> r\<lparr>quantity := quantity r + received goods name\<rparr>
                 | None \<Rightarrow> \<lparr>quantity = received goods name, category = None\<rparr>)
      else map_of cup name)"
proof (induction goods arbitrary: cup)
  case Nil
  show ?case by simp
next
  case (Cons p goods)
  obtain n q where p: "p = (n, q)" by (cases p)
  show ?case
    unfolding p
    by (cases "map_of cup n")
       (auto simp: Cons.IH update_conv' received_Cons received_absent split: option.splits)
qed

text \<open>
  C8. For every list of (item name, quantity) pairs, \<^verbatim>\<open>add_to_cupboard\<close> applies each
  pair to the cupboard: the quantity is added to an existing item of that name, or the
  item is created with that quantity and no category (an item named on several lines
  gets the sum). Other locations are untouched. There is exactly one call of
  \<^verbatim>\<open>save_data\<close>, after the whole batch, and the value returned is its outcome.
\<close>

theorem receive_batch:
  "\<exists>m'. add_to_cupboard disk m goods = (disk (saves m), m')
     \<and> saves m' = Suc (saves m)
     \<and> (\<forall>name. lookup (data m') ''cupboard'' name =
          (if name \<in> fst ` set goods
           then Some (case lookup (data m) ''cupboard'' name of
                        Some r \<Rightarrow> r\<lparr>quantity := quantity r + received goods name\<rparr>
                      | None \<Rightarrow> \<lparr>quantity = received goods name, category = None\<rparr>)
           else lookup (data m) ''cupboard'' name))
     \<and> (\<forall>loc. map_of (data m') loc =
          (if loc = ''cupboard'' then map_of (data m') ''cupboard'' else map_of (data m) loc))"
  by (cases "map_of (data m) ''cupboard''")
     (auto simp: add_to_cupboard_def save_data_def Let_def lookup_def update_conv'
        map_of_receive_all)


section \<open>Reading a location\<close>

text \<open>
  C9, as amended. On a store whose keys are among the four fixed location keys, for
  every non-empty location string that is not one of them, \<^verbatim>\<open>get_inventory\<close> returns
  an empty mapping and leaves the manager as it was.
\<close>

theorem get_inventory_unknown_location:
  assumes "loc \<noteq> []"
    and "loc \<notin> set locations"
    and "fst ` set (data m) \<subseteq> set locations"
  shows "get_inventory m (Some loc) = (Items [], m)"
proof -
  from assms(2,3) have "loc \<notin> fst ` set (data m)" by blast
  then have "map_of (data m) loc = None" by (simp add: map_of_eq_None_iff)
  with assms(1) show ?thesis by (simp add: get_inventory_def)
qed

theorem get_inventory_unknown_location_witness:
  "''freezer'' \<noteq> [] \<and> ''freezer'' \<notin> set locations
   \<and> fst ` set (data \<lparr>data = create_default_data, saves = 0\<rparr>) = set locations
   \<and> get_inventory \<lparr>data = create_default_data, saves = 0\<rparr> (Some ''freezer'')
       = (Items [], \<lparr>data = create_default_data, saves = 0\<rparr>)"
  using get_inventory_unknown_location
    [of "''freezer''" "\<lparr>data = create_default_data, saves = 0\<rparr>"]
  by (auto simp: locations_def create_default_data_def)

text \<open>
  C9 as stated fails for the empty string: it is not one of the four keys, yet the
  test \<^verbatim>\<open>if location:\<close> sends it, like \<^verbatim>\<open>None\<close>, to the branch that returns the whole
  store.
\<close>

theorem get_inventory_empty_string:
  "[] \<notin> set locations
   \<and> get_inventory \<lparr>data = create_default_data, saves = 0\<rparr> (Some [])
       = (Whole create_default_data, \<lparr>data = create_default_data, saves = 0\<rparr>)
   \<and> Whole create_default_data \<noteq> Items []"
  by (simp add: get_inventory_def locations_def)

section \<open>Applying a stocktake\<close>

lemma lookup_edit_item:
  "lookup (data (snd (edit_item disk m loc item (Some v) None))) l i =
     (if l = loc \<and> i = item then map_option (\<lambda>r. r\<lparr>quantity := v\<rparr>) (lookup (data m) loc item)
      else lookup (data m) l i)"
  by (auto simp: edit_item_def lookup_def save_data_def update_conv' split: option.splits)

lemma lookup_apply_items:
  "distinct (map fst its) \<Longrightarrow>
   lookup (data (apply_items disk m loc its)) l i =
     (if l = loc
      then (case map_of its i of
              None \<Rightarrow> lookup (data m) l i
            | Some v \<Rightarrow> map_option (\<lambda>r. r\<lparr>quantity := v\<rparr>) (lookup (data m) l i))
      else lookup (data m) l i)"
proof (induction its arbitrary: m)
  case Nil
  show ?case by simp
next
  case (Cons p its)
  obtain n v where p: "p = (n, v)" by (cases p)
  from Cons.prems have d: "distinct (map fst its)" and n: "n \<notin> fst ` set its"
    by (auto simp: p)
  from n have none: "map_of its n = None" by (simp add: map_of_eq_None_iff)
  show ?case
    unfolding p
    by (auto simp: Cons.IH[OF d] lookup_edit_item none split: option.splits)
qed

lemma lookup_apply_results:
  "distinct (map fst rs) \<Longrightarrow> \<forall>its \<in> snd ` set rs. distinct (map fst its) \<Longrightarrow>
   lookup (data (apply_results disk m rs)) l i =
     (case recorded rs l i of
        None \<Rightarrow> lookup (data m) l i
      | Some v \<Rightarrow> map_option (\<lambda>r. r\<lparr>quantity := v\<rparr>) (lookup (data m) l i))"
proof (induction rs arbitrary: m)
  case Nil
  show ?case by (simp add: recorded_def)
next
  case (Cons p rs)
  obtain loc its where p: "p = (loc, its)" by (cases p)
  from Cons.prems have d: "distinct (map fst rs)" and n: "loc \<notin> fst ` set rs"
    and di: "distinct (map fst its)" and dr: "\<forall>its \<in> snd ` set rs. distinct (map fst its)"
    by (auto simp: p)
  from n have none: "map_of rs loc = None" by (simp add: map_of_eq_None_iff)
  show ?case
    unfolding p
    by (auto simp: Cons.IH[OF d dr] lookup_apply_items[OF di] recorded_def none
        split: option.splits)
qed

text \<open>
  C6. The results of a session are a dictionary of dictionaries, so their keys are
  distinct. On confirmation every recorded (location, item, quantity) is written with
  \<^verbatim>\<open>edit_item\<close>: the record of that item gets the recorded quantity and keeps its category
  (an item that is no longer in the store is left absent by \<^verbatim>\<open>edit_item\<close>), and every
  item that was not recorded is unchanged. On any other answer the manager is returned
  as it was.
\<close>

theorem confirm_counting_applies:
  assumes "distinct (map fst rs)"
    and "\<forall>its \<in> snd ` set rs. distinct (map fst its)"
  shows "(lower_is_yes yes \<longrightarrow>
            (\<forall>loc item. lookup (data (confirm_counting disk m rs yes)) loc item =
               (case recorded rs loc item of
                  None \<Rightarrow> lookup (data m) loc item
                | Some v \<Rightarrow> map_option (\<lambda>r. r\<lparr>quantity := v\<rparr>) (lookup (data m) loc item))))
       \<and> (\<not> lower_is_yes no \<longrightarrow> confirm_counting disk m rs no = m)"
  using lookup_apply_results[OF assms] by (simp add: confirm_counting_def)

theorem confirm_counting_applies_witness:
  "distinct (map fst [(''refrigerator_1'', [(''Cola'', 8::int)])])
   \<and> lower_is_yes [1076, 1072]
   \<and> lookup (data (confirm_counting (\<lambda>n. True)
        \<lparr>data = [(''refrigerator_1'', [(''Cola'', \<lparr>quantity = 5, category = Some ''Drinks''\<rparr>)]),
                 (''refrigerator_2'', []), (''refrigerator_3'', []), (''cupboard'', [])],
         saves = 0\<rparr>
        [(''refrigerator_1'', [(''Cola'', 8)])] [1076, 1072])) ''refrigerator_1'' ''Cola''
       = Some \<lparr>quantity = 8, category = Some ''Drinks''\<rparr>
   \<and> \<not> lower_is_yes [1085, 1077, 1090]
   \<and> confirm_counting (\<lambda>n. True)
        \<lparr>data = [(''refrigerator_1'', [(''Cola'', \<lparr>quantity = 5, category = Some ''Drinks''\<rparr>)]),
                 (''refrigerator_2'', []), (''refrigerator_3'', []), (''cupboard'', [])],
         saves = 0\<rparr>
        [(''refrigerator_1'', [(''Cola'', 8)])] [1085, 1077, 1090]
       = \<lparr>data = [(''refrigerator_1'', [(''Cola'', \<lparr>quantity = 5, category = Some ''Drinks''\<rparr>)]),
                 (''refrigerator_2'', []), (''refrigerator_3'', []), (''cupboard'', [])],
         saves = 0\<rparr>"
proof -
  let ?m = "\<lparr>data = [(''refrigerator_1'', [(''Cola'', \<lparr>quantity = 5, category = Some ''Drinks''\<rparr>)]),
                 (''refrigerator_2'', []), (''refrigerator_3'', []), (''cupboard'', [])],
         saves = 0\<rparr>"
  let ?r = "[(''refrigerator_1'', [(''Cola'', 8::int)])]"
  have h1: "distinct (map fst ?r)" by simp
  have h2: "\<forall>its \<in> snd ` set ?r. distinct (map fst its)" by simp
  have y: "lower_is_yes [1076, 1072]" and n: "\<not> lower_is_yes [1085, 1077, 1090]"
    by (simp_all add: lower_is_yes_def)
  from confirm_counting_applies [OF h1 h2, of "[1076, 1072]" "\<lambda>n. True" ?m "[1085, 1077, 1090]"] y n
  have a: "\<forall>loc item. lookup (data (confirm_counting (\<lambda>n. True) ?m ?r [1076, 1072])) loc item =
               (case recorded ?r loc item of
                  None \<Rightarrow> lookup (data ?m) loc item
                | Some v \<Rightarrow> map_option (\<lambda>r. r\<lparr>quantity := v\<rparr>) (lookup (data ?m) loc item))"
    and b: "confirm_counting (\<lambda>n. True) ?m ?r [1085, 1077, 1090] = ?m"
    by blast+
  from a have "lookup (data (confirm_counting (\<lambda>n. True) ?m ?r [1076, 1072]))
      ''refrigerator_1'' ''Cola'' = Some \<lparr>quantity = 8, category = Some ''Drinks''\<rparr>"
    by (simp add: recorded_def lookup_def)
  with h1 y n b show ?thesis by blast
qed

section \<open>Positive quantities\<close>

lemma list_all_update:
  "list_all P al \<Longrightarrow> P (k, v) \<Longrightarrow> list_all P (AList.update k v al)"
  by (induction al) auto

lemma list_all_delete:
  "list_all P al \<Longrightarrow> list_all P (AList.delete k al)"
  by (induction al) (auto simp: AList.delete_eq)

lemma positive_items_update:
  "positive_items its \<Longrightarrow> 0 < quantity r \<Longrightarrow> positive_items (AList.update k r its)"
  by (simp add: positive_items_def list_all_update)

lemma positive_items_delete:
  "positive_items its \<Longrightarrow> positive_items (AList.delete k its)"
  by (simp add: positive_items_def list_all_delete)

lemma positive_items_lookup:
  "positive_items its \<Longrightarrow> map_of its k = Some r \<Longrightarrow> 0 < quantity r"
  by (auto simp: positive_items_def list_all_iff dest: map_of_SomeD)

lemma all_positive_update:
  "all_positive d \<Longrightarrow> positive_items its \<Longrightarrow> all_positive (AList.update loc its d)"
  by (simp add: all_positive_def list_all_update)

lemma all_positive_lookup:
  "all_positive d \<Longrightarrow> map_of d loc = Some its \<Longrightarrow> positive_items its"
  by (auto simp: all_positive_def list_all_iff dest: map_of_SomeD)

lemma all_positive_record:
  "all_positive d \<Longrightarrow> map_of d loc = Some its \<Longrightarrow> map_of its k = Some r \<Longrightarrow> 0 < quantity r"
  using all_positive_lookup positive_items_lookup by blast

lemma positive_items_Nil: "positive_items []"
  by (simp add: positive_items_def)

lemma add_item_positive:
  "all_positive (data m) \<Longrightarrow> 0 < qty \<Longrightarrow> all_positive (data (snd (add_item disk m loc name qty cat)))"
  by (auto simp: add_item_def save_data_def all_positive_update positive_items_update
      all_positive_lookup split: option.splits)

lemma edit_item_positive:
  "all_positive (data m) \<Longrightarrow> (case new_quantity of None \<Rightarrow> True | Some q \<Rightarrow> 0 < q) \<Longrightarrow>
   all_positive (data (snd (edit_item disk m loc name new_quantity new_category)))"
  by (auto simp: edit_item_def save_data_def Let_def
      intro!: all_positive_update positive_items_update
      dest: all_positive_lookup all_positive_record split: option.splits)

lemma remove_item_positive:
  "all_positive (data m) \<Longrightarrow> all_positive (data (snd (remove_item disk m loc name)))"
  by (auto simp: remove_item_def save_data_def
      intro!: all_positive_update positive_items_delete
      dest: all_positive_lookup split: option.splits)

lemma receive_all_positive:
  "positive_items cup \<Longrightarrow> \<forall>p\<in>set goods. 0 < snd p \<Longrightarrow> positive_items (receive_all cup goods)"
proof (induction goods arbitrary: cup)
  case Nil
  then show ?case by simp
next
  case (Cons p goods)
  obtain n q where p: "p = (n, q)" by (cases p)
  from Cons.prems have q: "0 < q" and rest: "\<forall>p\<in>set goods. 0 < snd p" by (auto simp: p)
  have "positive_items (case map_of cup n of
          Some r \<Rightarrow> AList.update n (r\<lparr>quantity := quantity r + q\<rparr>) cup
        | None \<Rightarrow> AList.update n \<lparr>quantity = q, category = None\<rparr> cup)"
    using Cons.prems(1) q
    by (auto intro!: positive_items_update dest: positive_items_lookup split: option.splits)
  from Cons.IH[OF this rest] show ?case by (simp add: p)
qed

lemma add_to_cupboard_positive:
  "all_positive (data m) \<Longrightarrow> \<forall>p\<in>set goods. 0 < snd p \<Longrightarrow>
   all_positive (data (snd (add_to_cupboard disk m goods)))"
  by (cases "map_of (data m) ''cupboard''")
     (auto simp: add_to_cupboard_def save_data_def Let_def update_conv'
       intro!: all_positive_update receive_all_positive positive_items_Nil
       dest: all_positive_lookup)

lemma apply_items_positive:
  "all_positive (data m) \<Longrightarrow> \<forall>p\<in>set its. 0 < snd p \<Longrightarrow>
   all_positive (data (apply_items disk m loc its))"
proof (induction its arbitrary: m)
  case Nil
  then show ?case by simp
next
  case (Cons p its)
  obtain n v where p: "p = (n, v)" by (cases p)
  from Cons.prems have v: "0 < v" and rest: "\<forall>p\<in>set its. 0 < snd p" by (auto simp: p)
  have "all_positive (data (snd (edit_item disk m loc n (Some v) None)))"
    using edit_item_positive[OF Cons.prems(1), of "Some v"] v by simp
  from Cons.IH[OF this rest] show ?case by (simp add: p)
qed

lemma apply_results_positive:
  "all_positive (data m) \<Longrightarrow> \<forall>e\<in>set rs. \<forall>p\<in>set (snd e). 0 < snd p \<Longrightarrow>
   all_positive (data (apply_results disk m rs))"
proof (induction rs arbitrary: m)
  case Nil
  then show ?case by simp
next
  case (Cons e rs)
  obtain loc its where e: "e = (loc, its)" by (cases e)
  from Cons.prems have its: "\<forall>p\<in>set its. 0 < snd p"
    and rest: "\<forall>e\<in>set rs. \<forall>p\<in>set (snd e). 0 < snd p" by (auto simp: e)
  from Cons.IH[OF apply_items_positive[OF Cons.prems(1) its] rest] show ?case by (simp add: e)
qed


lemma move_from_cupboard_positive:
  assumes pos: "all_positive (data m)" and q: "0 < qty"
  shows "all_positive (data (snd (move_from_cupboard disk m item qty)))"
proof (cases "map_of (data m) ''cupboard''")
  case None
  then show ?thesis using pos by (simp add: move_from_cupboard_def)
next
  case (Some cup)
  note cup = this
  show ?thesis
  proof (cases "map_of cup item")
    case None
    then show ?thesis using pos cup by (simp add: move_from_cupboard_def)
  next
    case (Some r)
    note r = this
    show ?thesis
    proof (cases "quantity r < qty")
      case True
      then show ?thesis using pos cup r by (simp add: move_from_cupboard_def)
    next
      case False
      then have le: "qty \<le> quantity r" by simp
      show ?thesis
      proof (cases "find_target (data m) item fridges")
        case (Inl loc)
        then show ?thesis using pos cup r le by (simp add: move_from_cupboard_def)
      next
        case (Inr found)
        from move_from_cupboard_step[OF cup r le Inr, of disk] obtain tgt tg where
          tg: "map_of (data m) tgt = Some tg"
          and res: "data (snd (move_from_cupboard disk m item qty)) =
            AList.update tgt
            (case map_of tg item of
               Some t \<Rightarrow> AList.update item (t\<lparr>quantity := quantity t + qty\<rparr>) tg
             | None \<Rightarrow> AList.update item \<lparr>quantity = qty,
                  category = (if quantity r - qty = 0 then None else category r)\<rparr> tg)
            (AList.update ''cupboard''
               (if quantity r - qty = 0 then AList.delete item cup
                else AList.update item (r\<lparr>quantity := quantity r - qty\<rparr>) cup) (data m))"
          by auto
        have pc: "positive_items cup" using all_positive_lookup[OF pos cup] .
        have pt: "positive_items tg" using all_positive_lookup[OF pos tg] .
        have c2: "positive_items (if quantity r - qty = 0 then AList.delete item cup
                else AList.update item (r\<lparr>quantity := quantity r - qty\<rparr>) cup)"
          using pc le by (auto intro!: positive_items_update positive_items_delete)
        have t2: "positive_items (case map_of tg item of
               Some t \<Rightarrow> AList.update item (t\<lparr>quantity := quantity t + qty\<rparr>) tg
             | None \<Rightarrow> AList.update item \<lparr>quantity = qty,
                  category = (if quantity r - qty = 0 then None else category r)\<rparr> tg)"
          using pt q
          by (auto intro!: positive_items_update dest: positive_items_lookup split: option.splits)
        show ?thesis unfolding res
          by (intro all_positive_update pos c2 t2)
      qed
    qed
  qed
qed

text \<open>
  C2, as amended. If every record of the store has a positive quantity, it is so again
  after each store operation that is given positive quantities: add with a positive
  quantity, edit with no new quantity or a positive one, remove, transfer of a positive
  quantity (whatever its outcome; a cupboard record that reaches zero is removed),
  receive of positive quantities, and a confirmed or declined stocktake whose recorded
  quantities are positive.
\<close>

theorem positive_quantities_preserved:
  assumes "all_positive (data m)"
  shows "(0 < qty_a \<longrightarrow> all_positive (data (snd (add_item disk m loc_a name_a qty_a cat_a))))
     \<and> ((case new_quantity of None \<Rightarrow> True | Some q \<Rightarrow> 0 < q) \<longrightarrow>
          all_positive (data (snd (edit_item disk m loc_e name_e new_quantity new_category))))
     \<and> all_positive (data (snd (remove_item disk m loc_r name_r)))
     \<and> (0 < qty_t \<longrightarrow> all_positive (data (snd (move_from_cupboard disk m item_t qty_t))))
     \<and> ((\<forall>p\<in>set goods. 0 < snd p) \<longrightarrow> all_positive (data (snd (add_to_cupboard disk m goods))))
     \<and> ((\<forall>e\<in>set rs. \<forall>p\<in>set (snd e). 0 < snd p) \<longrightarrow>
          all_positive (data (confirm_counting disk m rs txt)))"
proof (intro conjI impI)
  show "all_positive (data (snd (add_item disk m loc_a name_a qty_a cat_a)))" if "0 < qty_a"
    using add_item_positive[OF assms that] .
  show "all_positive (data (snd (edit_item disk m loc_e name_e new_quantity new_category)))"
    if "case new_quantity of None \<Rightarrow> True | Some q \<Rightarrow> 0 < q"
    using edit_item_positive[OF assms that] .
  show "all_positive (data (snd (remove_item disk m loc_r name_r)))"
    using remove_item_positive[OF assms] .
  show "all_positive (data (snd (move_from_cupboard disk m item_t qty_t)))" if "0 < qty_t"
    using move_from_cupboard_positive[OF assms that] .
  show "all_positive (data (snd (add_to_cupboard disk m goods)))" if "\<forall>p\<in>set goods. 0 < snd p"
    using add_to_cupboard_positive[OF assms that] .
  show "all_positive (data (confirm_counting disk m rs txt))"
    if "\<forall>e\<in>set rs. \<forall>p\<in>set (snd e). 0 < snd p"
    using apply_results_positive[OF assms that] assms by (simp add: confirm_counting_def)
qed

theorem positive_quantities_preserved_witness:
  "all_positive (data \<lparr>data = [(''refrigerator_1'', [(''Cola'', \<lparr>quantity = 5, category = None\<rparr>)]),
                 (''refrigerator_2'', []), (''refrigerator_3'', []),
                 (''cupboard'', [(''Milk'', \<lparr>quantity = 5, category = None\<rparr>)])], saves = 0\<rparr>)
   \<and> all_positive (data (snd (add_item (\<lambda>n. True)
        \<lparr>data = [(''refrigerator_1'', [(''Cola'', \<lparr>quantity = 5, category = None\<rparr>)]),
                 (''refrigerator_2'', []), (''refrigerator_3'', []),
                 (''cupboard'', [(''Milk'', \<lparr>quantity = 5, category = None\<rparr>)])], saves = 0\<rparr>
        ''refrigerator_2'' ''Tea'' 4 None)))
   \<and> all_positive (data (snd (edit_item (\<lambda>n. True)
        \<lparr>data = [(''refrigerator_1'', [(''Cola'', \<lparr>quantity = 5, category = None\<rparr>)]),
                 (''refrigerator_2'', []), (''refrigerator_3'', []),
                 (''cupboard'', [(''Milk'', \<lparr>quantity = 5, category = None\<rparr>)])], saves = 0\<rparr>
        ''refrigerator_1'' ''Cola'' (Some 7) None)))
   \<and> all_positive (data (snd (remove_item (\<lambda>n. True)
        \<lparr>data = [(''refrigerator_1'', [(''Cola'', \<lparr>quantity = 5, category = None\<rparr>)]),
                 (''refrigerator_2'', []), (''refrigerator_3'', []),
                 (''cupboard'', [(''Milk'', \<lparr>quantity = 5, category = None\<rparr>)])], saves = 0\<rparr>
        ''refrigerator_1'' ''Cola'')))
   \<and> all_positive (data (snd (move_from_cupboard (\<lambda>n. True)
        \<lparr>data = [(''refrigerator_1'', [(''Cola'', \<lparr>quantity = 5, category = None\<rparr>)]),
                 (''refrigerator_2'', []), (''refrigerator_3'', []),
                 (''cupboard'', [(''Milk'', \<lparr>quantity = 5, category = None\<rparr>)])], saves = 0\<rparr>
        ''Milk'' 5)))
   \<and> all_positive (data (snd (add_to_cupboard (\<lambda>n. True)
        \<lparr>data = [(''refrigerator_1'', [(''Cola'', \<lparr>quantity = 5, category = None\<rparr>)]),
                 (''refrigerator_2'', []), (''refrigerator_3'', []),
                 (''cupboard'', [(''Milk'', \<lparr>quantity = 5, category = None\<rparr>)])], saves = 0\<rparr>
        [(''Water'', 10)])))
   \<and> all_positive (data (confirm_counting (\<lambda>n. True)
        \<lparr>data = [(''refrigerator_1'', [(''Cola'', \<lparr>quantity = 5, category = None\<rparr>)]),
                 (''refrigerator_2'', []), (''refrigerator_3'', []),
                 (''cupboard'', [(''Milk'', \<lparr>quantity = 5, category = None\<rparr>)])], saves = 0\<rparr>
        [(''refrigerator_1'', [(''Cola'', 8)])] [1076, 1072]))"
proof -
  let ?m = "\<lparr>data = [(''refrigerator_1'', [(''Cola'', \<lparr>quantity = 5, category = None\<rparr>)]),
                 (''refrigerator_2'', []), (''refrigerator_3'', []),
                 (''cupboard'', [(''Milk'', \<lparr>quantity = 5, category = None\<rparr>)])], saves = 0\<rparr>"
  have h: "all_positive (data ?m)"
    by (simp add: all_positive_def positive_items_def)
  from positive_quantities_preserved [OF h, where qty_a = 4 and new_quantity = "Some 7"
      and qty_t = 5 and goods = "[(''Water'', 10)]"
      and rs = "[(''refrigerator_1'', [(''Cola'', 8)])]"]
  show ?thesis using h by simp
qed

text \<open>
  C2 as stated fails: a stocktake accepts the count 0, and its confirmation writes it
  with \<^verbatim>\<open>edit_item\<close>, which never removes a record. The entry stays in the location
  with quantity zero.
\<close>

theorem stocktake_zero_entry_remains:
  "all_positive [(''refrigerator_1'', [(''Cola'', \<lparr>quantity = 5, category = None\<rparr>)]),
                 (''refrigerator_2'', []), (''refrigerator_3'', []), (''cupboard'', [])]
   \<and> lower_is_yes [1076, 1072]
   \<and> data (confirm_counting (\<lambda>n. True)
        \<lparr>data = [(''refrigerator_1'', [(''Cola'', \<lparr>quantity = 5, category = None\<rparr>)]),
                 (''refrigerator_2'', []), (''refrigerator_3'', []), (''cupboard'', [])],
         saves = 0\<rparr>
        [(''refrigerator_1'', [(''Cola'', 0)])] [1076, 1072])
     = [(''refrigerator_1'', [(''Cola'', \<lparr>quantity = 0, category = None\<rparr>)]),
        (''refrigerator_2'', []), (''refrigerator_3'', []), (''cupboard'', [])]
   \<and> \<not> all_positive [(''refrigerator_1'', [(''Cola'', \<lparr>quantity = 0, category = None\<rparr>)]),
                 (''refrigerator_2'', []), (''refrigerator_3'', []), (''cupboard'', [])]"
  by (simp add: all_positive_def positive_items_def lower_is_yes_def confirm_counting_def
      edit_item_def save_data_def)

section \<open>Reorder advice\<close>

subsection \<open>The float product is exact up to 53 bits\<close>

lemma bit_length_le_iff: "bit_length a \<le> k \<longleftrightarrow> a < 2 ^ k"
proof (induction a arbitrary: k rule: bit_length.induct)
  case (1 n)
  show ?case
  proof (cases "n = 0")
    case True
    then show ?thesis by (simp add: bit_length.simps)
  next
    case False
    show ?thesis
    proof (cases k)
      case 0
      with False show ?thesis by (simp add: bit_length.simps)
    next
      case (Suc j)
      have "bit_length n \<le> Suc j \<longleftrightarrow> bit_length (n div 2) \<le> j"
        using False by (subst bit_length.simps) simp
      also have "\<dots> \<longleftrightarrow> n div 2 < 2 ^ j" using "1.IH"[OF False] .
      also have "\<dots> \<longleftrightarrow> n < 2 ^ Suc j" by auto
      finally show ?thesis using Suc by simp
    qed
  qed
qed

lemma float_of_nat_exact: "a \<le> 2 ^ 53 \<Longrightarrow> float_of_nat a = a"
proof (cases "a < 2 ^ 53")
  case True
  then show ?thesis by (simp add: float_of_nat_def bit_length_le_iff)
next
  case False
  assume "a \<le> 2 ^ 53"
  with False have a: "a = 2 ^ 53" by simp
  have "bit_length a \<le> 54" "\<not> bit_length a \<le> 53"
    unfolding bit_length_le_iff a by simp_all
  then have b: "bit_length a = 54" by simp
  show ?thesis unfolding float_of_nat_def b unfolding a
    by (simp add: Let_def)
qed

lemma ceil_half_exact:
  assumes "\<bar>n\<bar> \<le> 2 ^ 53"
  shows "ceil_half n = Inr \<lceil>real_of_int n * 0.5\<rceil>"
proof -
  have le: "nat \<bar>n\<bar> \<le> 2 ^ 53" using assms by (simp add: nat_le_iff)
  have f: "float_of_int n = Inr n"
    unfolding float_of_int_def float_of_nat_exact[OF le] using le
    by (auto simp: Let_def)
  have "\<lceil>real_of_int n * 0.5\<rceil> = - ((- n) div 2)"
  proof -
    have "real_of_int n * 0.5 = - (real_of_int (- n) / real_of_int 2)" by simp
    then have "\<lceil>real_of_int n * 0.5\<rceil> = - \<lfloor>real_of_int (- n) / real_of_int 2\<rfloor>"
      by (simp only: ceiling_def minus_minus)
    also have "\<dots> = - ((- n) div 2)" by (simp only: floor_divide_of_int_eq)
    finally show ?thesis .
  qed
  with f show ?thesis by (simp add: ceil_half_def)
qed

lemma total_in_fridges_sum:
  "total_in_fridges d item locs acc = acc + sum_list (map (\<lambda>loc. qty_of d loc item) locs)"
  by (induction locs arbitrary: acc) auto

lemma fridge_total:
  "total_in_fridges d item fridges 0 =
     qty_of d ''refrigerator_1'' item + qty_of d ''refrigerator_2'' item
       + qty_of d ''refrigerator_3'' item"
  by (simp add: total_in_fridges_sum fridges_def)

lemma keys_iff_lookup:
  "item \<in> set (case map_of d loc of None \<Rightarrow> [] | Some its \<Rightarrow> map fst its)
     \<longleftrightarrow> lookup d loc item \<noteq> None"
proof (cases "map_of d loc")
  case None
  then show ?thesis by (simp add: lookup_def)
next
  case (Some its)
  have "item \<in> fst ` set its \<longleftrightarrow> map_of its item \<noteq> None"
    by (simp add: map_of_eq_None_iff)
  with Some show ?thesis by (simp add: lookup_def)
qed

lemma fridge_items_iff:
  "item \<in> set (fridge_items d) \<longleftrightarrow> (\<exists>loc\<in>set fridges. lookup d loc item \<noteq> None)"
  unfolding fridge_items_def set_remdups set_concat set_map
  using keys_iff_lookup[of item d] by blast

lemma check_items_exact:
  assumes "\<forall>item. \<bar>total_in_fridges d item fridges 0\<bar> \<le> 2 ^ 53"
  shows "\<exists>res. check_items d threshold its acc = Inr res
     \<and> (\<forall>item. map_of res item =
          (if item \<in> set its \<and> qty_of d ''cupboard'' item < threshold
           then Some \<lparr>current = qty_of d ''cupboard'' item,
                      recommended = max 10 \<lceil>real_of_int (total_in_fridges d item fridges 0) * 0.5\<rceil>\<rparr>
           else map_of acc item))"
proof (induction its arbitrary: acc)
  case Nil
  show ?case by simp
next
  case (Cons i its)
  show ?case
  proof (cases "qty_of d ''cupboard'' i < threshold")
    case False
    with Cons.IH[of acc] show ?thesis by auto
  next
    case True
    let ?e = "\<lparr>current = qty_of d ''cupboard'' i,
               recommended = max 10 \<lceil>real_of_int (total_in_fridges d i fridges 0) * 0.5\<rceil>\<rparr>"
    have c: "ceil_half (total_in_fridges d i fridges 0)
        = Inr \<lceil>real_of_int (total_in_fridges d i fridges 0) * 0.5\<rceil>"
      using assms by (intro ceil_half_exact) simp
    from Cons.IH[of "AList.update i ?e acc"] obtain res where
      r: "check_items d threshold its (AList.update i ?e acc) = Inr res"
      and m: "\<forall>item. map_of res item =
          (if item \<in> set its \<and> qty_of d ''cupboard'' item < threshold
           then Some \<lparr>current = qty_of d ''cupboard'' item,
                      recommended = max 10 \<lceil>real_of_int (total_in_fridges d item fridges 0) * 0.5\<rceil>\<rparr>
           else map_of (AList.update i ?e acc) item)"
      by blast
    have "check_items d threshold (i # its) acc = Inr res"
      using True c r by (simp add: Let_def)
    moreover have "\<forall>item. map_of res item =
          (if item \<in> set (i # its) \<and> qty_of d ''cupboard'' item < threshold
           then Some \<lparr>current = qty_of d ''cupboard'' item,
                      recommended = max 10 \<lceil>real_of_int (total_in_fridges d item fridges 0) * 0.5\<rceil>\<rparr>
           else map_of acc item)"
      using m True by (auto simp: update_conv')
    ultimately show ?thesis by blast
  qed
qed


lemma bit_length_pow2: "bit_length (2 ^ k) = Suc k"
proof -
  have "bit_length (2 ^ k) \<le> Suc k" "\<not> bit_length (2 ^ k) \<le> k"
    unfolding bit_length_le_iff by simp_all
  then show ?thesis by simp
qed

lemma float_of_int_overflow: "float_of_int (2 ^ 1024) = Inl OverflowError"
proof -
  have n: "nat \<bar>2 ^ 1024 :: int\<bar> = 2 ^ 1024" by (simp add: nat_power_eq)
  have "float_of_nat (2 ^ 1024) = 2 ^ 52 * 2 ^ 972"
    unfolding float_of_nat_def bit_length_pow2 Let_def
    by (simp add: power_diff flip: power_add)
  then have "float_of_nat (2 ^ 1024) = 2 ^ 1024" by (simp flip: power_add)
  then show ?thesis unfolding float_of_int_def n Let_def by simp
qed

subsection \<open>The recommendation\<close>

text \<open>
  C5, as amended. In every store state where the total of each item over the three
  refrigerators is at most \<open>2 ^ 53\<close> in absolute value, \<^verbatim>\<open>check_stock_levels(10)\<close>
  returns a mapping that holds an item if and only if the item is present in at least
  one refrigerator and its cupboard quantity (0 if absent) is below 10; the entry
  records that cupboard quantity and recommends the maximum of 10 and the ceiling of
  half the total over the three refrigerators. Items at or above the threshold are
  absent.
\<close>

theorem check_stock_levels_recommends:
  assumes "\<forall>item. \<bar>qty_of (data m) ''refrigerator_1'' item + qty_of (data m) ''refrigerator_2'' item
                   + qty_of (data m) ''refrigerator_3'' item\<bar> \<le> 2 ^ 53"
  shows "\<exists>res. check_stock_levels m 10 = Inr res
     \<and> (\<forall>item. map_of res item =
          (if (\<exists>loc\<in>set fridges. lookup (data m) loc item \<noteq> None)
               \<and> qty_of (data m) ''cupboard'' item < 10
           then Some \<lparr>current = qty_of (data m) ''cupboard'' item,
                      recommended = max 10
                        \<lceil>real_of_int (qty_of (data m) ''refrigerator_1'' item
                            + qty_of (data m) ''refrigerator_2'' item
                            + qty_of (data m) ''refrigerator_3'' item) * 0.5\<rceil>\<rparr>
           else None))"
proof -
  from assms have b: "\<forall>item. \<bar>total_in_fridges (data m) item fridges 0\<bar> \<le> 2 ^ 53"
    by (simp add: fridge_total)
  from check_items_exact[OF b, of 10 "fridge_items (data m)" "[]"]
  show ?thesis
    by (simp only: check_stock_levels_def fridge_items_iff fridge_total map_of.simps)
qed

theorem check_stock_levels_recommends_witness:
  "\<exists>res. check_stock_levels
       \<lparr>data = [(''refrigerator_1'', [(''Cola'', \<lparr>quantity = 30, category = None\<rparr>)]),
                (''refrigerator_2'', [(''Cola'', \<lparr>quantity = 11, category = None\<rparr>),
                                     (''Milk'', \<lparr>quantity = 4, category = None\<rparr>)]),
                (''refrigerator_3'', [(''Tea'', \<lparr>quantity = 7, category = None\<rparr>)]),
                (''cupboard'', [(''Cola'', \<lparr>quantity = 9, category = None\<rparr>),
                                (''Tea'', \<lparr>quantity = 10, category = None\<rparr>)])],
        saves = 0\<rparr> 10 = Inr res
     \<and> map_of res ''Cola'' = Some \<lparr>current = 9, recommended = 21\<rparr>
     \<and> map_of res ''Milk'' = Some \<lparr>current = 0, recommended = 10\<rparr>
     \<and> map_of res ''Tea'' = None"
proof -
  let ?d = "[(''refrigerator_1'', [(''Cola'', \<lparr>quantity = 30, category = None\<rparr>)]),
                (''refrigerator_2'', [(''Cola'', \<lparr>quantity = 11, category = None\<rparr>),
                                     (''Milk'', \<lparr>quantity = 4, category = None\<rparr>)]),
                (''refrigerator_3'', [(''Tea'', \<lparr>quantity = 7, category = None\<rparr>)]),
                (''cupboard'', [(''Cola'', \<lparr>quantity = 9, category = None\<rparr>),
                                (''Tea'', \<lparr>quantity = 10, category = None\<rparr>)])]"
  have h: "\<forall>item. \<bar>qty_of (data \<lparr>data = ?d, saves = 0\<rparr>) ''refrigerator_1'' item
                   + qty_of (data \<lparr>data = ?d, saves = 0\<rparr>) ''refrigerator_2'' item
                   + qty_of (data \<lparr>data = ?d, saves = 0\<rparr>) ''refrigerator_3'' item\<bar> \<le> 2 ^ 53"
    by (simp add: qty_of_def lookup_def)
  from check_stock_levels_recommends[OF h] obtain res where
    r: "check_stock_levels \<lparr>data = ?d, saves = 0\<rparr> 10 = Inr res"
    and m: "\<And>item. map_of res item =
          (if (\<exists>loc\<in>set fridges. lookup ?d loc item \<noteq> None)
               \<and> qty_of ?d ''cupboard'' item < 10
           then Some \<lparr>current = qty_of ?d ''cupboard'' item,
                      recommended = max 10
                        \<lceil>real_of_int (qty_of ?d ''refrigerator_1'' item
                            + qty_of ?d ''refrigerator_2'' item
                            + qty_of ?d ''refrigerator_3'' item) * 0.5\<rceil>\<rparr>
           else None)"
    by auto
  have "(41::real) * 0.5 = 20.5" by simp
  have c: "\<lceil>(41::real) / 2\<rceil> = 21" by (simp add: ceiling_eq_iff)
  have "map_of res ''Cola'' = Some \<lparr>current = 9, recommended = 21\<rparr>"
    unfolding m by (simp add: qty_of_def lookup_def fridges_def c)
  moreover have "map_of res ''Milk'' = Some \<lparr>current = 0, recommended = 10\<rparr>"
    unfolding m by (simp add: qty_of_def lookup_def fridges_def)
  moreover have "map_of res ''Tea'' = None"
    unfolding m by (simp add: qty_of_def lookup_def fridges_def)
  ultimately show ?thesis using r by blast
qed

text \<open>
  C5 as stated, for every store state, fails where the total is too large for a float:
  with \<open>2 ^ 1024\<close> units in a refrigerator and none in the cupboard the item is below
  the threshold, and the product \<^verbatim>\<open>total_in_fridges * 0.5\<close> raises \<^verbatim>\<open>OverflowError\<close>,
  so there is no result for the item to be included in.
\<close>

theorem check_stock_levels_overflow:
  "lookup [(''refrigerator_1'', [(''Cola'', \<lparr>quantity = 2 ^ 1024, category = None\<rparr>)]),
           (''refrigerator_2'', []), (''refrigerator_3'', []), (''cupboard'', [])]
      ''refrigerator_1'' ''Cola'' \<noteq> None
   \<and> qty_of [(''refrigerator_1'', [(''Cola'', \<lparr>quantity = 2 ^ 1024, category = None\<rparr>)]),
           (''refrigerator_2'', []), (''refrigerator_3'', []), (''cupboard'', [])]
      ''cupboard'' ''Cola'' < 10
   \<and> check_stock_levels
       \<lparr>data = [(''refrigerator_1'', [(''Cola'', \<lparr>quantity = 2 ^ 1024, category = None\<rparr>)]),
                (''refrigerator_2'', []), (''refrigerator_3'', []), (''cupboard'', [])],
        saves = 0\<rparr> 10 = Inl OverflowError"
  by (simp add: check_stock_levels_def fridge_items_def fridges_def qty_of_def lookup_def
      ceil_half_def float_of_int_overflow[simplified])

section \<open>The quantity expression evaluator and its caller\<close>

subsection \<open>A text without digits does not parse\<close>












subsection \<open>What a turn of the stocktake records\<close>






end
